theory Spec2Isabelle
  imports Main "HOL-Library.Word"
begin

section \<open>JavaScript strings\<close>

text \<open>
  A JavaScript string is a sequence of UTF-16 code units; \<open>length\<close>, \<open>trim\<close>, \<open>===\<close> and
  a regular expression without the \<open>u\<close> flag all work on code units. String literals of
  the source are ASCII and are written \<open>js ''...''\<close>.
\<close>

type_synonym codeunit = "16 word"
type_synonym jsstring = "codeunit list"

definition js :: "string \<Rightarrow> jsstring" where
  "js s = map of_char s"

text \<open>
  \<open>String.prototype.trim\<close> removes WhiteSpace and LineTerminator code points from both
  ends (ECMAScript: TAB, VT, FF, SP, NBSP, ZWNBSP, the Unicode category Zs, and LF, CR,
  LS, PS). All of them are single code units.
\<close>

definition isWhiteSpace :: "codeunit \<Rightarrow> bool" where
  "isWhiteSpace c \<longleftrightarrow>
     c = 0x0009 \<or> c = 0x000A \<or> c = 0x000B \<or> c = 0x000C \<or> c = 0x000D \<or> c = 0x0020 \<or>
     c = 0x00A0 \<or> c = 0x1680 \<or> (0x2000 \<le> c \<and> c \<le> 0x200A) \<or> c = 0x2028 \<or>
     c = 0x2029 \<or> c = 0x202F \<or> c = 0x205F \<or> c = 0x3000 \<or> c = 0xFEFF"

definition trimStart :: "jsstring \<Rightarrow> jsstring" where
  "trimStart s = dropWhile isWhiteSpace s"

definition trimEnd :: "jsstring \<Rightarrow> jsstring" where
  "trimEnd s = rev (dropWhile isWhiteSpace (rev s))"

definition trim :: "jsstring \<Rightarrow> jsstring" where
  "trim s = trimEnd (trimStart s)"

section \<open>ResumeUpload: \<open>validateFile\<close>\<close>

text \<open>
  The metadata of a browser \<open>File\<close> that the component reads. \<open>File.size\<close> is a
  non-negative integer number of bytes.
\<close>

record jsfile =
  name_f :: jsstring
  size_f :: nat
  type_f :: jsstring

definition validTypes :: "jsstring list" where
  "validTypes =
     [js ''application/pdf'', js ''application/msword'',
      js ''application/vnd.openxmlformats-officedocument.wordprocessingml.document'']"

definition maxSize :: nat where
  "maxSize = 10 * 1024 * 1024"

text \<open>
  \<open>validateFile\<close> returns a boolean and stores a message with \<open>setError\<close>. The model
  returns both: the text of \<open>error\<close> after the call, and the returned boolean.
  \<open>Array.prototype.includes\<close> on strings is equality of code-unit sequences.
\<close>

definition validateFile :: "jsfile \<Rightarrow> jsstring \<times> bool" where
  "validateFile f =
     (if type_f f \<notin> set validTypes then
        (js ''Please upload a PDF or Word document'', False)
      else if size_f f > maxSize then
        (js ''File size must be less than 10MB'', False)
      else (js '''', True))"

section \<open>GitHubConnect: \<open>validateUsername\<close>\<close>

subsection \<open>A backtracking matcher for the regular-expression literal\<close>

text \<open>
  The fragment of ECMAScript regular expressions that the literal
  \<^verbatim>\<open>/^[a-z\d](?:[a-z\d]|-(?=[a-z\d])){0,38}$/i\<close> uses: character classes given by
  ranges, concatenation, alternation, positive lookahead, the bounded quantifier
  \<open>{0,n}\<close> and the assertions \<open>^\<close> and \<open>$\<close> (without the \<open>m\<close> flag: start and end of
  the input).
\<close>

datatype rx =
    CharClass "(codeunit \<times> codeunit) list"
  | Cat rx rx
  | Alt rx rx
  | LookAhead rx
  | UpTo nat rx
  | Bol
  | Eol

definition inRange :: "codeunit \<Rightarrow> codeunit \<times> codeunit \<Rightarrow> bool" where
  "inRange c r \<longleftrightarrow> fst r \<le> c \<and> c \<le> snd r"

text \<open>
  With the \<open>i\<close> flag and no \<open>u\<close> flag a code unit matches a class when some member of
  the class has the same canonical form (\<open>toUpperCase\<close>, except that a code unit
  \<open>\<ge> 128\<close> is never mapped to one \<open>< 128\<close>). For the ASCII ranges used here that means:
  the code unit itself, or its ASCII counterpart of the other case, lies in a range.
\<close>

definition isLower :: "codeunit \<Rightarrow> bool" where
  "isLower c \<longleftrightarrow> 0x61 \<le> c \<and> c \<le> 0x7A"

definition isUpper :: "codeunit \<Rightarrow> bool" where
  "isUpper c \<longleftrightarrow> 0x41 \<le> c \<and> c \<le> 0x5A"

definition inClass :: "bool \<Rightarrow> (codeunit \<times> codeunit) list \<Rightarrow> codeunit \<Rightarrow> bool" where
  "inClass ignoreCase rs c =
     list_ex (\<lambda>r. inRange c r
                \<or> (ignoreCase \<and> isLower c \<and> inRange (c - 0x20) r)
                \<or> (ignoreCase \<and> isUpper c \<and> inRange (c + 0x20) r)) rs"

type_synonym rxcont = "nat \<Rightarrow> jsstring \<Rightarrow> bool"

primrec repeatUpTo :: "nat \<Rightarrow> (rxcont \<Rightarrow> rxcont) \<Rightarrow> rxcont \<Rightarrow> rxcont" where
  "repeatUpTo 0 body k = k"
| "repeatUpTo (Suc n) body k = (\<lambda>i s. body (repeatUpTo n body k) i s \<or> k i s)"

text \<open>
  \<open>rxMatch r ic k i s\<close>: \<open>r\<close> matches a prefix of the remaining input \<open>s\<close>, which starts
  at index \<open>i\<close> of the whole input, and the continuation \<open>k\<close> accepts what follows.
\<close>

primrec rxMatch :: "rx \<Rightarrow> bool \<Rightarrow> rxcont \<Rightarrow> rxcont" where
  "rxMatch (CharClass rs) ic k =
     (\<lambda>i s. case s of [] \<Rightarrow> False | c # cs \<Rightarrow> inClass ic rs c \<and> k (Suc i) cs)"
| "rxMatch (Cat a b) ic k = rxMatch a ic (rxMatch b ic k)"
| "rxMatch (Alt a b) ic k = (\<lambda>i s. rxMatch a ic k i s \<or> rxMatch b ic k i s)"
| "rxMatch (LookAhead a) ic k = (\<lambda>i s. rxMatch a ic (\<lambda>_ _. True) i s \<and> k i s)"
| "rxMatch (UpTo n a) ic k = repeatUpTo n (rxMatch a ic) k"
| "rxMatch Bol ic k = (\<lambda>i s. i = 0 \<and> k i s)"
| "rxMatch Eol ic k = (\<lambda>i s. s = [] \<and> k i s)"

text \<open>
  \<open>RegExp.prototype.test\<close> on a regular expression without the \<open>g\<close> and \<open>y\<close> flags tries
  every start index from 0 to the length of the input.
\<close>

definition rxTest :: "bool \<Rightarrow> rx \<Rightarrow> jsstring \<Rightarrow> bool" where
  "rxTest ic r v = list_ex (\<lambda>i. rxMatch r ic (\<lambda>_ _. True) i (drop i v)) [0..<Suc (length v)]"

subsection \<open>The validator\<close>

text \<open>The class \<^verbatim>\<open>[a-z\d]\<close>: \<open>\d\<close> is \<open>[0-9]\<close> in ECMAScript.\<close>

definition lowerOrDigit :: "(codeunit \<times> codeunit) list" where
  "lowerOrDigit = [(0x61, 0x7A), (0x30, 0x39)]"

definition hyphen :: codeunit where
  "hyphen = 0x2D"

definition usernameRegex :: rx where
  "usernameRegex =
     Cat Bol
      (Cat (CharClass lowerOrDigit)
        (Cat (UpTo 38 (Alt (CharClass lowerOrDigit)
                           (Cat (CharClass [(hyphen, hyphen)])
                                (LookAhead (CharClass lowerOrDigit)))))
             Eol))"

text \<open>
  \<open>validateUsername\<close> returns a boolean and stores a message with \<open>setError\<close>; as for
  \<open>validateFile\<close> the model returns both. The empty string is the only falsy string,
  so \<open>!value.trim()\<close> is \<open>trim value = []\<close>.
\<close>

definition validateUsername :: "jsstring \<Rightarrow> jsstring \<times> bool" where
  "validateUsername v =
     (if trim v = [] then (js ''Please enter a GitHub username'', False)
      else if \<not> rxTest True usernameRegex v then
        (js ''Please enter a valid GitHub username'', False)
      else (js '''', True))"

text \<open>
  The specification writes the same expression with explicit upper-case ranges and no
  flag: \<^verbatim>\<open>^[A-Za-z0-9](?:[A-Za-z0-9]|-(?=[A-Za-z0-9])){0,38}$\<close>.
\<close>

definition alnumRanges :: "(codeunit \<times> codeunit) list" where
  "alnumRanges = [(0x41, 0x5A), (0x61, 0x7A), (0x30, 0x39)]"

definition specRegex :: rx where
  "specRegex =
     Cat Bol
      (Cat (CharClass alnumRanges)
        (Cat (UpTo 38 (Alt (CharClass alnumRanges)
                           (Cat (CharClass [(hyphen, hyphen)])
                                (LookAhead (CharClass alnumRanges)))))
             Eol))"

text \<open>
  The specification's prose for the grammar: 1 to 39 characters, each alphanumeric or a
  hyphen, no hyphen at either end and no two hyphens next to each other.
\<close>

definition isAlnum :: "codeunit \<Rightarrow> bool" where
  "isAlnum c \<longleftrightarrow> (0x30 \<le> c \<and> c \<le> 0x39) \<or> (0x41 \<le> c \<and> c \<le> 0x5A) \<or> (0x61 \<le> c \<and> c \<le> 0x7A)"

fun noAdjacentHyphens :: "jsstring \<Rightarrow> bool" where
  "noAdjacentHyphens (a # b # cs) = (\<not> (a = hyphen \<and> b = hyphen) \<and> noAdjacentHyphens (b # cs))"
| "noAdjacentHyphens _ = True"

definition specHandle :: "jsstring \<Rightarrow> bool" where
  "specHandle v \<longleftrightarrow>
     1 \<le> length v \<and> length v \<le> 39 \<and> list_all (\<lambda>c. isAlnum c \<or> c = hyphen) v \<and>
     hd v \<noteq> hyphen \<and> last v \<noteq> hyphen \<and> noAdjacentHyphens v"

text \<open>
  The strings accepted by the quantified group followed by \<open>$\<close>, written as a recursion
  on the input; used to relate the matcher to the prose grammar.
\<close>

fun tailOK :: "jsstring \<Rightarrow> bool" where
  "tailOK [] = True"
| "tailOK (c # cs) = ((isAlnum c \<or> (c = hyphen \<and> cs \<noteq> [] \<and> isAlnum (hd cs))) \<and> tailOK cs)"

section \<open>api.ts: the two outbound calls\<close>

text \<open>
  What the two functions of \<open>utils/api.ts\<close> send through the axios client: the
  method, the path, the content type (the client's default is \<open>application/json\<close>) and
  the body. Opaque payloads (\<open>any\<close> in the source) are carried as text.
\<close>

type_synonym payload = jsstring

datatype part = FilePart jsfile | TextPart jsstring

datatype body =
    Multipart "(jsstring \<times> part) list"
  | Json "(jsstring \<times> jsstring) list"

record request =
  httpMethod :: jsstring
  url :: jsstring
  contentType :: jsstring
  body :: body

text \<open>
  The response body types \<open>ResumeAnalysisResponse\<close> and \<open>GitHubAnalysisResponse\<close>: both
  are \<open>{success, data, message?}\<close>. A body that arrives without \<open>data\<close> or \<open>message\<close>
  reads as \<open>undefined\<close> there, which is \<open>None\<close>.
\<close>

record response =
  success :: bool
  data :: "payload option"
  message :: "jsstring option"

text \<open>A thrown \<open>Error\<close> object: its \<open>name\<close> and its \<open>message\<close>.\<close>

datatype jserror = JsError (errName: jsstring) (errMessage: jsstring)

text \<open>
  How a promise returned by the api functions settles. Both functions return
  \<open>response.data\<close> of the axios response and rethrow what axios throws (a network
  failure or a status outside 2xx), so the promise is fulfilled with the body of a 2xx
  response and rejected otherwise.
\<close>

datatype outcome = Fulfilled response | Rejected jserror

text \<open>
  \<open>uploadResume\<close> is declared with the single parameter \<open>file\<close>; \<open>App\<close> calls it with
  two arguments, and JavaScript drops the one that has no parameter. The form data
  gets the one field \<open>resume\<close>.
\<close>

definition uploadResume :: "jsfile \<Rightarrow> jsstring \<Rightarrow> request" where
  "uploadResume file username =
     \<lparr>httpMethod = js ''POST'', url = js ''/resume/analyze'',
      contentType = js ''multipart/form-data'',
      body = Multipart [(js ''resume'', FilePart file)]\<rparr>"

definition analyzeGitHub :: "jsstring \<Rightarrow> request" where
  "analyzeGitHub username =
     \<lparr>httpMethod = js ''POST'', url = js ''/github/analyze'',
      contentType = js ''application/json'',
      body = Json [(js ''username'', username)]\<rparr>"

section \<open>App: the wizard state and its handlers\<close>

record digitalTwinData =
  resume :: "jsfile option"
  resumeAnalysis :: "payload option"
  githubUsername :: "jsstring option"
  githubData :: "payload option"
  analysis :: "payload option"

text \<open>
  What the handlers do that is visible outside the component state, in the order it
  happens: an api function is invoked (with the request it sends), an awaited promise
  settles and the handler resumes, an alert is shown. Console output is left out.
\<close>

datatype apicall = UploadResume | AnalyzeGitHub

datatype event =
    Invoked apicall request
  | Settled apicall outcome
  | Alert jsstring

text \<open>
  The three \<open>useState\<close> cells of \<open>App\<close>, and the events so far. Every \<open>setTwinData\<close> in
  the source is a functional update \<open>prev => ({...prev, ...})\<close>, which is a record update
  of the current state.
\<close>

record app =
  step :: nat
  twinData :: digitalTwinData
  isProcessing :: bool
  trace :: "event list"

definition emptyTwinData :: digitalTwinData where
  "emptyTwinData =
     \<lparr>resume = None, resumeAnalysis = None, githubUsername = None, githubData = None,
      analysis = None\<rparr>"

definition initialApp :: app where
  "initialApp = \<lparr>step = 1, twinData = emptyTwinData, isProcessing = False, trace = []\<rparr>"

definition handleResumeUpload :: "jsfile \<Rightarrow> app \<Rightarrow> app" where
  "handleResumeUpload file st =
     st\<lparr>twinData := (twinData st)\<lparr>resume := Some file\<rparr>, step := 2\<rparr>"

definition handleReset :: "app \<Rightarrow> app" where
  "handleReset st = st\<lparr>step := 1, twinData := emptyTwinData, isProcessing := False\<rparr>"

subsection \<open>\<open>handleGitHubConnect\<close>\<close>

text \<open>
  \<open>handleGitHubConnect\<close> is an \<open>async\<close> function with two \<open>await\<close>s. It runs in up to
  three segments: from the call to the first \<open>await\<close>, from the settlement of
  \<open>uploadResume\<close> to the second \<open>await\<close>, and from the settlement of \<open>analyzeGitHub\<close> to
  the end. Between two segments the handler is suspended; a segment runs only when the
  promise it waits for has settled, and gets the outcome.
\<close>

datatype suspended = AwaitUploadResume jsstring | AwaitAnalyzeGitHub jsstring

definition invoke :: "apicall \<Rightarrow> request \<Rightarrow> app \<Rightarrow> app" where
  "invoke c r st = st\<lparr>trace := trace st @ [Invoked c r]\<rparr>"

definition settled :: "apicall \<Rightarrow> outcome \<Rightarrow> app \<Rightarrow> app" where
  "settled c out st = st\<lparr>trace := trace st @ [Settled c out]\<rparr>"

text \<open>
  First segment: \<open>setIsProcessing(true)\<close>, the username is stored, and
  \<open>if (twinData.resume)\<close> chooses the first call. A \<open>File\<close> object is always truthy.
\<close>

definition handleGitHubConnect_start :: "jsstring \<Rightarrow> app \<Rightarrow> app \<times> suspended" where
  "handleGitHubConnect_start username st =
     (let st1 = st\<lparr>isProcessing := True,
                    twinData := (twinData st)\<lparr>githubUsername := Some username\<rparr>\<rparr>
      in case resume (twinData st) of
           Some file \<Rightarrow>
             (invoke UploadResume (uploadResume file username) st1, AwaitUploadResume username)
         | None \<Rightarrow>
             (invoke AnalyzeGitHub (analyzeGitHub username) st1, AwaitAnalyzeGitHub username))"

text \<open>
  Second segment, the inner \<open>try\<close>/\<open>catch\<close>: a fulfilled upload stores
  \<open>resumeResult.data\<close>, a rejected one is only logged; then \<open>analyzeGitHub\<close> is called.
\<close>

definition handleGitHubConnect_afterUpload ::
    "outcome \<Rightarrow> jsstring \<Rightarrow> app \<Rightarrow> app \<times> suspended" where
  "handleGitHubConnect_afterUpload out username st =
     (let st1 = settled UploadResume out st;
          st2 = (case out of
                   Fulfilled resumeResult \<Rightarrow>
                     st1\<lparr>twinData := (twinData st1)\<lparr>resumeAnalysis := data resumeResult\<rparr>\<rparr>
                 | Rejected error \<Rightarrow> st1)
      in (invoke AnalyzeGitHub (analyzeGitHub username) st2, AwaitAnalyzeGitHub username))"

text \<open>
  The outer \<open>catch\<close>: \<open>setIsProcessing(false)\<close> and the alert. In
  \<open>error.message || error\<close> an empty message is falsy, and an \<open>Error\<close> with an empty
  message prints as its name.
\<close>

definition catchBlock :: "jserror \<Rightarrow> app \<Rightarrow> app" where
  "catchBlock error st =
     (let shown = (if errMessage error \<noteq> [] then errMessage error else errName error)
      in st\<lparr>isProcessing := False,
            trace := trace st @ [Alert (js ''GitHub analysis failed: '' @ shown)]\<rparr>)"

text \<open>
  Third segment: \<open>if (result.success)\<close> stores the data and goes to step 3; otherwise
  \<open>throw new Error(result.message || 'GitHub analysis failed')\<close> lands in the outer
  \<open>catch\<close>, as a rejected promise does.
\<close>

definition handleGitHubConnect_afterAnalyze :: "outcome \<Rightarrow> jsstring \<Rightarrow> app \<Rightarrow> app" where
  "handleGitHubConnect_afterAnalyze out username st =
     (let st1 = settled AnalyzeGitHub out st
      in case out of
           Fulfilled result \<Rightarrow>
             if success result then
               st1\<lparr>twinData := (twinData st1)\<lparr>githubUsername := Some username,
                                               githubData := data result\<rparr>,
                   isProcessing := False, step := 3\<rparr>
             else
               catchBlock
                 (JsError (js ''Error'')
                    (case message result of
                       None \<Rightarrow> js ''GitHub analysis failed''
                     | Some m \<Rightarrow> if m \<noteq> [] then m else js ''GitHub analysis failed''))
                 st1
         | Rejected error \<Rightarrow> catchBlock error st1)"

text \<open>
  One whole run of the handler: \<open>outA\<close> is how the promise of \<open>uploadResume\<close> settles
  (used only when the call is made) and \<open>outB\<close> how the promise of \<open>analyzeGitHub\<close>
  settles.
\<close>

definition handleGitHubConnect :: "jsstring \<Rightarrow> outcome \<Rightarrow> outcome \<Rightarrow> app \<Rightarrow> app" where
  "handleGitHubConnect username outA outB st =
     (case handleGitHubConnect_start username st of
        (st1, AwaitUploadResume u) \<Rightarrow>
          handleGitHubConnect_afterAnalyze outB u
            (fst (handleGitHubConnect_afterUpload outA u st1))
      | (st1, AwaitAnalyzeGitHub u) \<Rightarrow> handleGitHubConnect_afterAnalyze outB u st1)"

section \<open>GitHubConnect: submission\<close>

text \<open>The component's own state: the text of the input, and the message under it.\<close>

record githubConnect =
  username :: jsstring
  error :: jsstring

text \<open>
  \<open>disabled={isProcessing || !username.trim()}\<close> on the submit button, and
  \<open>disabled={isProcessing}\<close> on the input.
\<close>

definition connectButtonDisabled :: "bool \<Rightarrow> githubConnect \<Rightarrow> bool" where
  "connectButtonDisabled processing c \<longleftrightarrow> processing \<or> trim (username c) = []"

definition inputDisabled :: "bool \<Rightarrow> bool" where
  "inputDisabled processing \<longleftrightarrow> processing"

text \<open>
  \<open>handleSubmit\<close>: when \<open>validateUsername\<close> accepts, \<open>onConnect(username)\<close> starts
  \<open>handleGitHubConnect\<close>, which runs to its first \<open>await\<close>.
\<close>

definition handleSubmit :: "githubConnect \<Rightarrow> app \<Rightarrow> githubConnect \<times> app \<times> suspended option" where
  "handleSubmit c st =
     (case validateUsername (username c) of
        (err, True) \<Rightarrow>
          (case handleGitHubConnect_start (username c) st of
             (st1, k) \<Rightarrow> (c\<lparr>error := err\<rparr>, st1, Some k))
      | (err, False) \<Rightarrow> (c\<lparr>error := err\<rparr>, st, None))"

text \<open>
  A submission attempt by the user. The form is on the page only while \<open>step === 2\<close>,
  and the browser submits a form only through a submit button that is not disabled
  (a click on it, or Enter in the input, which a disabled input cannot receive).
\<close>

definition submitAttempt :: "githubConnect \<Rightarrow> app \<Rightarrow> githubConnect \<times> app \<times> suspended option" where
  "submitAttempt c st =
     (if step st = 2 \<and> \<not> connectButtonDisabled (isProcessing st) c then handleSubmit c st
      else (c, st, None))"

section \<open>ResultsDisplay: \<open>handleExport\<close>\<close>

text \<open>
  The object literal \<open>data\<close>: three properties in this order, a value \<open>undefined\<close> being
  \<open>None\<close>. \<open>now\<close> is what \<open>new Date().toISOString()\<close> returns at the time of the call.
\<close>

definition exportData :: "jsstring \<Rightarrow> digitalTwinData \<Rightarrow> (jsstring \<times> jsstring option) list" where
  "exportData now td =
     [(js ''resume'', map_option name_f (resume td)),
      (js ''github'', githubUsername td),
      (js ''timestamp'', Some now)]"

text \<open>
  \<open>JSON.stringify\<close> writes the properties of an object in their order and leaves out
  each one whose value is \<open>undefined\<close>. The model stops at the members of the JSON
  object that is written (key and string value), before quoting and indentation.
\<close>

fun stringifyMembers :: "(jsstring \<times> jsstring option) list \<Rightarrow> (jsstring \<times> jsstring) list" where
  "stringifyMembers [] = []"
| "stringifyMembers ((k, None) # ps) = stringifyMembers ps"
| "stringifyMembers ((k, Some v) # ps) = (k, v) # stringifyMembers ps"

record artifact =
  download :: jsstring
  mimeType :: jsstring
  members :: "(jsstring \<times> jsstring) list"

definition handleExport :: "jsstring \<Rightarrow> digitalTwinData \<Rightarrow> artifact" where
  "handleExport now td =
     \<lparr>download = js ''digital-twin.json'', mimeType = js ''application/json'',
      members = stringifyMembers (exportData now td)\<rparr>"

section \<open>Notions used to state the properties\<close>

text \<open>
  A stage has failed when its promise is rejected, or is fulfilled with a body that
  says \<open>success: false\<close>.
\<close>

definition stageFailed :: "outcome \<Rightarrow> bool" where
  "stageFailed out = (case out of Fulfilled r \<Rightarrow> \<not> success r | Rejected e \<Rightarrow> True)"

fun isAlert :: "event \<Rightarrow> bool" where
  "isAlert (Alert m) = True"
| "isAlert _ = False"

text \<open>Example inputs: a resume of 500 KB, a handle, and the state after the resume step.\<close>

definition resumePdf :: jsfile where
  "resumePdf =
     \<lparr>name_f = js ''resume.pdf'', size_f = 500 * 1024, type_f = js ''application/pdf''\<rparr>"

definition octocat :: jsstring where
  "octocat = js ''octocat''"

definition atGitHubStep :: app where
  "atGitHubStep = handleResumeUpload resumePdf initialApp"

definition okBody :: "payload \<Rightarrow> response" where
  "okBody d = \<lparr>success = True, data = Some d, message = None\<rparr>"

definition failBody :: "payload \<Rightarrow> jsstring \<Rightarrow> response" where
  "failBody d m = \<lparr>success = False, data = Some d, message = Some m\<rparr>"

definition profileData :: payload where
  "profileData = js ''octocat-profile''"

definition resumeData :: payload where
  "resumeData = js ''resume-summary''"

definition networkError :: jserror where
  "networkError = JsError (js ''AxiosError'') (js ''Network Error'')"

text \<open>
  The state after a first run from the GitHub step in which the upload was fulfilled and
  the analysis was rejected.
\<close>

definition afterFailedRun :: app where
  "afterFailedRun =
     handleGitHubConnect octocat (Fulfilled (okBody resumeData)) (Rejected networkError)
       atGitHubStep"

section \<open>Properties of the validators\<close>

subsection \<open>\<open>validateFile\<close>\<close>

text \<open>
  Claim C6. \<open>validateFile\<close> accepts (returns \<open>true\<close> and clears the message) exactly the
  files whose type is \<open>application/pdf\<close>, \<open>application/msword\<close> or the OOXML Word type
  and whose size is at most \<open>10 * 1024 * 1024\<close> bytes. Every file of another type is
  rejected with the message for an unsupported type, and every file of an allowed type
  that is larger than the limit is rejected with the message for a file that is too
  large.
\<close>

theorem validateFile_verdict:
  "(validateFile f = (js '''', True)) =
     ((type_f f = js ''application/pdf'' \<or> type_f f = js ''application/msword'' \<or>
       type_f f = js ''application/vnd.openxmlformats-officedocument.wordprocessingml.document'')
      \<and> size_f f \<le> 10 * 1024 * 1024)
   \<and> (snd (validateFile f) = (validateFile f = (js '''', True)))
   \<and> (\<not> (type_f f = js ''application/pdf'' \<or> type_f f = js ''application/msword'' \<or>
          type_f f = js ''application/vnd.openxmlformats-officedocument.wordprocessingml.document'')
        \<longrightarrow> validateFile f = (js ''Please upload a PDF or Word document'', False))
   \<and> ((type_f f = js ''application/pdf'' \<or> type_f f = js ''application/msword'' \<or>
        type_f f = js ''application/vnd.openxmlformats-officedocument.wordprocessingml.document'')
       \<and> size_f f > 10 * 1024 * 1024
        \<longrightarrow> validateFile f = (js ''File size must be less than 10MB'', False))"
  by (auto simp: validateFile_def validTypes_def maxSize_def)

theorem validateFile_verdict_witness:
  "validateFile \<lparr>name_f = js ''resume.pdf'', size_f = 10 * 1024 * 1024,
                  type_f = js ''application/pdf''\<rparr> = (js '''', True)
   \<and> validateFile \<lparr>name_f = js ''notes.txt'', size_f = 12, type_f = js ''text/plain''\<rparr>
       = (js ''Please upload a PDF or Word document'', False)
   \<and> validateFile \<lparr>name_f = js ''cv.doc'', size_f = 10 * 1024 * 1024 + 1,
                    type_f = js ''application/msword''\<rparr>
       = (js ''File size must be less than 10MB'', False)"
  using validateFile_verdict
          [of "\<lparr>name_f = js ''resume.pdf'', size_f = 10 * 1024 * 1024,
                type_f = js ''application/pdf''\<rparr>"]
        validateFile_verdict
          [of "\<lparr>name_f = js ''notes.txt'', size_f = 12, type_f = js ''text/plain''\<rparr>"]
        validateFile_verdict
          [of "\<lparr>name_f = js ''cv.doc'', size_f = 10 * 1024 * 1024 + 1,
                type_f = js ''application/msword''\<rparr>"]
  by (simp add: js_def)

subsection \<open>\<open>validateUsername\<close>\<close>

lemma all_dropWhile: "(\<forall>x\<in>set (dropWhile P v). P x) = (\<forall>c\<in>set v. P c)"
  by (induction v) auto

lemma trim_empty: "trim v = [] \<longleftrightarrow> list_all isWhiteSpace v"
  by (simp add: trim_def trimStart_def trimEnd_def dropWhile_eq_Nil_conv all_dropWhile
      list_all_iff)

lemma lowerOrDigit_ignoreCase: "inClass True lowerOrDigit c = isAlnum c"
  unfolding inClass_def lowerOrDigit_def isAlnum_def inRange_def isLower_def isUpper_def
  apply simp
  apply unat_arith
  apply simp
  apply arith
  done

lemma alnumRanges_exact: "inClass False alnumRanges c = isAlnum c"
  unfolding inClass_def alnumRanges_def isAlnum_def inRange_def isLower_def isUpper_def
  by auto

lemma hyphen_class: "inClass ic [(hyphen, hyphen)] c = (c = hyphen)"
  unfolding inClass_def inRange_def isLower_def isUpper_def hyphen_def
  apply simp
  apply unat_arith
  done

lemma alnum_not_whitespace: "isAlnum c \<Longrightarrow> \<not> isWhiteSpace c"
  unfolding isAlnum_def isWhiteSpace_def by (auto simp: word_le_nat_alt)

lemma hyphen_not_alnum: "\<not> isAlnum hyphen"
  unfolding isAlnum_def hyphen_def by simp

text \<open>The quantified group, followed by the end of the input, accepts the good tails.\<close>

lemma repeat_tail:
  assumes cls: "\<And>c. inClass ic cls c = isAlnum c"
  shows "repeatUpTo n
           (rxMatch (Alt (CharClass cls)
                         (Cat (CharClass [(hyphen, hyphen)]) (LookAhead (CharClass cls)))) ic)
           (\<lambda>_ s. s = []) i s
         \<longleftrightarrow> length s \<le> n \<and> tailOK s"
proof (induction n arbitrary: i s)
  case 0
  show ?case by (cases s) auto
next
  case (Suc n)
  show ?case
  proof (cases s)
    case Nil
    then show ?thesis by simp
  next
    case (Cons c cs)
    then show ?thesis
      using Suc.IH[of "Suc i" cs] hyphen_not_alnum
      by (cases cs) (auto simp: cls hyphen_class)
  qed
qed

text \<open>With \<open>^\<close> in front, only the start index 0 can match.\<close>

lemma test_anchored: "rxTest ic (Cat Bol r) v = rxMatch r ic (\<lambda>_ _. True) 0 v"
proof -
  have "list_ex (\<lambda>i. i = 0 \<and> rxMatch r ic (\<lambda>_ _. True) i (drop i v)) [0..<Suc (length v)]
        = rxMatch r ic (\<lambda>_ _. True) 0 v"
    by (auto simp: list_ex_iff)
  thus ?thesis by (simp add: rxTest_def)
qed

lemma regex_shape:
  assumes cls: "\<And>c. inClass ic cls c = isAlnum c"
  shows "rxTest ic
           (Cat Bol
             (Cat (CharClass cls)
               (Cat (UpTo 38 (Alt (CharClass cls)
                                  (Cat (CharClass [(hyphen, hyphen)])
                                       (LookAhead (CharClass cls)))))
                    Eol))) v
         \<longleftrightarrow> (\<exists>c cs. v = c # cs \<and> isAlnum c \<and> length cs \<le> 38 \<and> tailOK cs)"
  unfolding test_anchored
  by (cases v) (simp_all add: repeat_tail[OF cls] cls)

lemma tailOK_prose:
  "tailOK cs \<longleftrightarrow>
     list_all (\<lambda>c. isAlnum c \<or> c = hyphen) cs \<and> (cs \<noteq> [] \<longrightarrow> last cs \<noteq> hyphen) \<and>
     noAdjacentHyphens cs"
proof (induction cs)
  case Nil
  show ?case by simp
next
  case (Cons a cs)
  then show ?case using hyphen_not_alnum by (cases cs) auto
qed

lemma shape_prose:
  "(\<exists>c cs. v = c # cs \<and> isAlnum c \<and> length cs \<le> 38 \<and> tailOK cs) \<longleftrightarrow> specHandle v"
proof (cases v)
  case Nil
  then show ?thesis by (simp add: specHandle_def)
next
  case (Cons c cs)
  then show ?thesis
    using hyphen_not_alnum
    by (cases cs) (auto simp: specHandle_def tailOK_prose)
qed

lemma usernameRegex_specHandle: "rxTest True usernameRegex v \<longleftrightarrow> specHandle v"
  unfolding usernameRegex_def
  by (simp only: regex_shape[of True lowerOrDigit, OF lowerOrDigit_ignoreCase] shape_prose)

lemma specRegex_specHandle: "rxTest False specRegex v \<longleftrightarrow> specHandle v"
  unfolding specRegex_def
  by (simp only: regex_shape[of False alnumRanges, OF alnumRanges_exact] shape_prose)

lemma specHandle_not_blank: "specHandle v \<Longrightarrow> \<not> list_all isWhiteSpace v"
proof -
  assume h: "specHandle v"
  then obtain c cs where v: "v = c # cs" and c: "isAlnum c"
    using shape_prose[of v] by blast
  show ?thesis using alnum_not_whitespace[OF c] by (simp add: v)
qed

text \<open>
  Claim C7. \<open>validateUsername\<close> accepts every handle that matches
  \<^verbatim>\<open>^[A-Za-z0-9](?:[A-Za-z0-9]|-(?=[A-Za-z0-9])){0,38}$\<close>; these are the strings of 1 to 39
  characters, each alphanumeric or a hyphen, with no hyphen first or last and no two
  hyphens side by side. It answers with the message for an empty username on the empty
  string and on every string of white space only, and with the message for an invalid
  username on every other string.
\<close>

theorem validateUsername_verdict:
  "(rxTest False specRegex v \<longrightarrow> validateUsername v = (js '''', True))
   \<and> (v = [] \<or> list_all isWhiteSpace v
        \<longrightarrow> validateUsername v = (js ''Please enter a GitHub username'', False))
   \<and> (\<not> rxTest False specRegex v \<and> \<not> list_all isWhiteSpace v
        \<longrightarrow> validateUsername v = (js ''Please enter a valid GitHub username'', False))
   \<and> (rxTest False specRegex v \<longleftrightarrow> specHandle v)"
  using specHandle_not_blank[of v]
  by (auto simp: validateUsername_def trim_empty usernameRegex_specHandle specRegex_specHandle)

lemma octocat_specHandle: "specHandle (js ''octocat'')"
  by (simp add: js_def specHandle_def isAlnum_def hyphen_def)

lemma bad_not_specHandle: "\<not> specHandle (js ''-bad-'')"
  by (simp add: js_def specHandle_def hyphen_def)

lemma blanks_whitespace: "list_all isWhiteSpace (js ''  '')"
  by (simp add: js_def isWhiteSpace_def)

lemma bad_not_whitespace: "\<not> list_all isWhiteSpace (js ''-bad-'')"
  by (simp add: js_def isWhiteSpace_def)

theorem validateUsername_verdict_witness:
  "rxTest False specRegex (js ''octocat'')
   \<and> validateUsername (js ''octocat'') = (js '''', True)
   \<and> validateUsername [] = (js ''Please enter a GitHub username'', False)
   \<and> list_all isWhiteSpace (js ''  '')
   \<and> validateUsername (js ''  '') = (js ''Please enter a GitHub username'', False)
   \<and> \<not> rxTest False specRegex (js ''-bad-'') \<and> \<not> list_all isWhiteSpace (js ''-bad-'')
   \<and> validateUsername (js ''-bad-'') = (js ''Please enter a valid GitHub username'', False)"
proof -
  have a: "rxTest False specRegex (js ''octocat'')"
    using validateUsername_verdict[of "js ''octocat''"] octocat_specHandle by blast
  have b: "validateUsername (js ''octocat'') = (js '''', True)"
    using validateUsername_verdict[of "js ''octocat''"] a by blast
  have c: "validateUsername [] = (js ''Please enter a GitHub username'', False)"
    using validateUsername_verdict[of "[]"] by blast
  have d: "validateUsername (js ''  '') = (js ''Please enter a GitHub username'', False)"
    using validateUsername_verdict[of "js ''  ''"] blanks_whitespace by blast
  have e: "\<not> rxTest False specRegex (js ''-bad-'')"
    using validateUsername_verdict[of "js ''-bad-''"] bad_not_specHandle by blast
  have f: "validateUsername (js ''-bad-'') = (js ''Please enter a valid GitHub username'', False)"
    using validateUsername_verdict[of "js ''-bad-''"] e bad_not_whitespace by blast
  show ?thesis using a b c d e f blanks_whitespace bad_not_whitespace by blast
qed

section \<open>Properties of the orchestration\<close>

subsection \<open>The segments of \<open>handleGitHubConnect\<close>\<close>

lemma start_resume:
  "resume (twinData st) = Some f \<Longrightarrow>
   handleGitHubConnect_start u st =
     (st\<lparr>isProcessing := True, twinData := (twinData st)\<lparr>githubUsername := Some u\<rparr>,
         trace := trace st @ [Invoked UploadResume (uploadResume f u)]\<rparr>, AwaitUploadResume u)"
  by (simp add: handleGitHubConnect_start_def invoke_def Let_def)

lemma start_no_resume:
  "resume (twinData st) = None \<Longrightarrow>
   handleGitHubConnect_start u st =
     (st\<lparr>isProcessing := True, twinData := (twinData st)\<lparr>githubUsername := Some u\<rparr>,
         trace := trace st @ [Invoked AnalyzeGitHub (analyzeGitHub u)]\<rparr>, AwaitAnalyzeGitHub u)"
  by (simp add: handleGitHubConnect_start_def invoke_def Let_def)

lemma afterUpload_eq:
  "handleGitHubConnect_afterUpload out u st =
     (st\<lparr>twinData := (case out of
                         Fulfilled r \<Rightarrow> (twinData st)\<lparr>resumeAnalysis := data r\<rparr>
                       | Rejected e \<Rightarrow> twinData st),
         trace := trace st @ [Settled UploadResume out, Invoked AnalyzeGitHub (analyzeGitHub u)]\<rparr>,
      AwaitAnalyzeGitHub u)"
  by (cases out) (simp_all add: handleGitHubConnect_afterUpload_def invoke_def settled_def Let_def)

lemma afterAnalyze_failed:
  "stageFailed out \<Longrightarrow>
   \<exists>m. handleGitHubConnect_afterAnalyze out u st =
     st\<lparr>isProcessing := False, trace := trace st @ [Settled AnalyzeGitHub out, Alert m]\<rparr>"
  by (cases out)
     (auto simp: stageFailed_def handleGitHubConnect_afterAnalyze_def catchBlock_def settled_def
        Let_def)

lemma afterAnalyze_ok:
  "success r \<Longrightarrow>
   handleGitHubConnect_afterAnalyze (Fulfilled r) u st =
     st\<lparr>twinData := (twinData st)\<lparr>githubUsername := Some u, githubData := data r\<rparr>,
        isProcessing := False, step := 3,
        trace := trace st @ [Settled AnalyzeGitHub (Fulfilled r)]\<rparr>"
  by (simp add: handleGitHubConnect_afterAnalyze_def settled_def Let_def)

lemma run_resume:
  "resume (twinData st) = Some f \<Longrightarrow>
   handleGitHubConnect u outA outB st =
     handleGitHubConnect_afterAnalyze outB u
       (fst (handleGitHubConnect_afterUpload outA u (fst (handleGitHubConnect_start u st))))"
  by (simp add: handleGitHubConnect_def start_resume)

lemma run_no_resume:
  "resume (twinData st) = None \<Longrightarrow>
   handleGitHubConnect u outA outB st =
     handleGitHubConnect_afterAnalyze outB u (fst (handleGitHubConnect_start u st))"
  by (simp add: handleGitHubConnect_def start_no_resume)

lemma trace_afterAnalyze:
  "take (Suc (length (trace st))) (trace (handleGitHubConnect_afterAnalyze out u st))
     = trace st @ [Settled AnalyzeGitHub out]"
  by (cases out)
     (auto simp: handleGitHubConnect_afterAnalyze_def catchBlock_def settled_def Let_def)

lemma atGitHubStep_eq:
  "atGitHubStep =
     \<lparr>step = 2, twinData = emptyTwinData\<lparr>resume := Some resumePdf\<rparr>, isProcessing = False,
      trace = []\<rparr>"
  by (simp add: atGitHubStep_def handleResumeUpload_def initialApp_def)

lemma atGitHubStep_fields:
  "resume (twinData atGitHubStep) = Some resumePdf"
  "resumeAnalysis (twinData atGitHubStep) = None"
  "step atGitHubStep = 2"
  "isProcessing atGitHubStep = False"
  "trace atGitHubStep = []"
  by (simp_all add: atGitHubStep_eq emptyTwinData_def)

subsection \<open>Order of the two calls\<close>

text \<open>
  Claim C1. In a run of \<open>handleGitHubConnect\<close> that starts from a state with a resume
  file, \<open>uploadResume\<close> is invoked first and the handler is then suspended on its
  promise, with \<open>analyzeGitHub\<close> not yet invoked; \<open>analyzeGitHub\<close> is invoked by the segment
  that runs when that promise has settled, whether fulfilled or rejected. The events of
  the whole run begin: upload invoked, upload settled, analysis invoked, analysis
  settled.
\<close>

theorem stageB_after_stageA:
  assumes "resume (twinData st) = Some f"
  shows "snd (handleGitHubConnect_start u st) = AwaitUploadResume u
       \<and> trace (fst (handleGitHubConnect_start u st))
           = trace st @ [Invoked UploadResume (uploadResume f u)]
       \<and> trace (fst (handleGitHubConnect_afterUpload outA u (fst (handleGitHubConnect_start u st))))
           = trace st @ [Invoked UploadResume (uploadResume f u), Settled UploadResume outA,
                         Invoked AnalyzeGitHub (analyzeGitHub u)]
       \<and> take (length (trace st) + 4) (trace (handleGitHubConnect u outA outB st))
           = trace st @ [Invoked UploadResume (uploadResume f u), Settled UploadResume outA,
                         Invoked AnalyzeGitHub (analyzeGitHub u), Settled AnalyzeGitHub outB]"
proof -
  let ?st1 = "fst (handleGitHubConnect_start u st)"
  let ?st2 = "fst (handleGitHubConnect_afterUpload outA u ?st1)"
  have t1: "trace ?st1 = trace st @ [Invoked UploadResume (uploadResume f u)]"
    and k1: "snd (handleGitHubConnect_start u st) = AwaitUploadResume u"
    using assms by (simp_all add: start_resume)
  have t2: "trace ?st2 = trace st @ [Invoked UploadResume (uploadResume f u),
              Settled UploadResume outA, Invoked AnalyzeGitHub (analyzeGitHub u)]"
    by (simp add: afterUpload_eq t1)
  have "take (Suc (length (trace ?st2))) (trace (handleGitHubConnect_afterAnalyze outB u ?st2))
          = trace ?st2 @ [Settled AnalyzeGitHub outB]"
    by (rule trace_afterAnalyze)
  hence t3: "take (length (trace st) + 4) (trace (handleGitHubConnect u outA outB st))
          = trace st @ [Invoked UploadResume (uploadResume f u), Settled UploadResume outA,
                         Invoked AnalyzeGitHub (analyzeGitHub u), Settled AnalyzeGitHub outB]"
    by (simp add: run_resume[OF assms] t2 eval_nat_numeral)
  show ?thesis using k1 t1 t2 t3 by blast
qed

theorem stageB_after_stageA_witness:
  "resume (twinData atGitHubStep) = Some resumePdf
   \<and> snd (handleGitHubConnect_start octocat atGitHubStep) = AwaitUploadResume octocat
   \<and> trace (fst (handleGitHubConnect_start octocat atGitHubStep))
       = [Invoked UploadResume (uploadResume resumePdf octocat)]
   \<and> trace (handleGitHubConnect octocat (Rejected networkError) (Fulfilled (okBody profileData))
               atGitHubStep)
       = [Invoked UploadResume (uploadResume resumePdf octocat),
          Settled UploadResume (Rejected networkError),
          Invoked AnalyzeGitHub (analyzeGitHub octocat),
          Settled AnalyzeGitHub (Fulfilled (okBody profileData))]"
proof -
  have r: "resume (twinData atGitHubStep) = Some resumePdf"
    by (rule atGitHubStep_fields)
  have "length (trace (handleGitHubConnect octocat (Rejected networkError)
                         (Fulfilled (okBody profileData)) atGitHubStep)) = 4"
    by (simp add: run_resume[OF r] start_resume[OF r] afterUpload_eq afterAnalyze_ok okBody_def
        atGitHubStep_fields)
  thus ?thesis
    using stageB_after_stageA[OF r, of octocat "Rejected networkError" "Fulfilled (okBody profileData)"] r
    by (simp add: atGitHubStep_fields)
qed

subsection \<open>Failure of the upload\<close>

text \<open>
  Claim C4, as the code has it. When the promise of \<open>uploadResume\<close> is rejected and
  \<open>analyzeGitHub\<close> is fulfilled with \<open>success: true\<close>, the run is not aborted: it goes on
  to the end, the data of the analysis response is stored in \<open>githubData\<close> (present
  whenever the response carries data), \<open>step\<close> becomes 3, \<open>isProcessing\<close> is false again
  and no alert is shown. The run stores nothing in \<open>resumeAnalysis\<close>: the field keeps the
  value it had when the run began, so it is absent after a run that began with it absent.
\<close>

theorem stageA_failure_does_not_abort:
  assumes "resume (twinData st) = Some f" and "success r"
  shows "handleGitHubConnect u (Rejected e) (Fulfilled r) st =
           st\<lparr>twinData := (twinData st)\<lparr>githubUsername := Some u, githubData := data r\<rparr>,
               isProcessing := False, step := 3,
               trace := trace st @ [Invoked UploadResume (uploadResume f u),
                                    Settled UploadResume (Rejected e),
                                    Invoked AnalyzeGitHub (analyzeGitHub u),
                                    Settled AnalyzeGitHub (Fulfilled r)]\<rparr>
       \<and> step (handleGitHubConnect u (Rejected e) (Fulfilled r) st) = 3
       \<and> githubData (twinData (handleGitHubConnect u (Rejected e) (Fulfilled r) st)) = data r
       \<and> (data r = Some d \<longrightarrow>
            githubData (twinData (handleGitHubConnect u (Rejected e) (Fulfilled r) st)) = Some d)
       \<and> resumeAnalysis (twinData (handleGitHubConnect u (Rejected e) (Fulfilled r) st))
           = resumeAnalysis (twinData st)
       \<and> (resumeAnalysis (twinData st) = None \<longrightarrow>
            resumeAnalysis (twinData (handleGitHubConnect u (Rejected e) (Fulfilled r) st)) = None)
       \<and> \<not> isProcessing (handleGitHubConnect u (Rejected e) (Fulfilled r) st)"
  using assms
  by (simp add: run_resume start_resume afterUpload_eq afterAnalyze_ok)

theorem stageA_failure_does_not_abort_witness:
  "resume (twinData atGitHubStep) = Some resumePdf \<and> success (okBody profileData)
   \<and> data (okBody profileData) = Some profileData
   \<and> step (handleGitHubConnect octocat (Rejected networkError) (Fulfilled (okBody profileData))
             atGitHubStep) = 3
   \<and> githubData (twinData (handleGitHubConnect octocat (Rejected networkError)
                              (Fulfilled (okBody profileData)) atGitHubStep)) = Some profileData
   \<and> resumeAnalysis (twinData atGitHubStep) = None
   \<and> resumeAnalysis (twinData (handleGitHubConnect octocat (Rejected networkError)
                                  (Fulfilled (okBody profileData)) atGitHubStep)) = None
   \<and> \<not> isProcessing (handleGitHubConnect octocat (Rejected networkError)
                        (Fulfilled (okBody profileData)) atGitHubStep)"
proof -
  have r: "resume (twinData atGitHubStep) = Some resumePdf"
    by (rule atGitHubStep_fields)
  have s: "success (okBody profileData)"
    by (simp add: okBody_def)
  have d: "data (okBody profileData) = Some profileData"
    by (simp add: okBody_def)
  have n: "resumeAnalysis (twinData atGitHubStep) = None"
    by (rule atGitHubStep_fields)
  show ?thesis
    using stageA_failure_does_not_abort[OF r s, of octocat networkError profileData] r s d n
    by simp
qed

text \<open>
  The field is not always absent after such a run. A first run from the GitHub step in
  which the upload is fulfilled and the analysis is rejected leaves the wizard on step 2
  with the data of the upload in \<open>resumeAnalysis\<close>. In the retry from that state the
  upload is rejected and the analysis succeeds: the run ends at step 3, and
  \<open>resumeAnalysis\<close> still holds the data of the first run.
\<close>

lemma afterFailedRun_eq:
  "afterFailedRun =
     \<lparr>step = 2,
      twinData = emptyTwinData\<lparr>resume := Some resumePdf, resumeAnalysis := Some resumeData,
                                githubUsername := Some octocat\<rparr>,
      isProcessing = False,
      trace = [Invoked UploadResume (uploadResume resumePdf octocat),
               Settled UploadResume (Fulfilled (okBody resumeData)),
               Invoked AnalyzeGitHub (analyzeGitHub octocat),
               Settled AnalyzeGitHub (Rejected networkError),
               Alert (js ''GitHub analysis failed: Network Error'')]\<rparr>"
proof -
  have r: "resume (twinData atGitHubStep) = Some resumePdf"
    by (rule atGitHubStep_fields)
  have "afterFailedRun =
          handleGitHubConnect_afterAnalyze (Rejected networkError) octocat
            (fst (handleGitHubConnect_afterUpload (Fulfilled (okBody resumeData)) octocat
                   (fst (handleGitHubConnect_start octocat atGitHubStep))))"
    unfolding afterFailedRun_def by (rule run_resume[OF r])
  also have "\<dots> =
      atGitHubStep\<lparr>isProcessing := False,
        twinData := (twinData atGitHubStep)\<lparr>githubUsername := Some octocat,
                                              resumeAnalysis := data (okBody resumeData)\<rparr>,
        trace := trace atGitHubStep @
              [Invoked UploadResume (uploadResume resumePdf octocat),
               Settled UploadResume (Fulfilled (okBody resumeData)),
               Invoked AnalyzeGitHub (analyzeGitHub octocat),
               Settled AnalyzeGitHub (Rejected networkError),
               Alert (js ''GitHub analysis failed: '' @ errMessage networkError)]\<rparr>"
    by (simp add: start_resume[OF r] afterUpload_eq handleGitHubConnect_afterAnalyze_def
        catchBlock_def settled_def Let_def networkError_def js_def)
  finally show ?thesis
    by (simp add: atGitHubStep_eq emptyTwinData_def okBody_def networkError_def js_def)
qed

theorem stale_resumeAnalysis_counterexample:
  "step afterFailedRun = 2 \<and> \<not> isProcessing afterFailedRun
   \<and> resume (twinData afterFailedRun) = Some resumePdf
   \<and> stageFailed (Rejected networkError) \<and> \<not> stageFailed (Fulfilled (okBody profileData))
   \<and> step (handleGitHubConnect octocat (Rejected networkError) (Fulfilled (okBody profileData))
             afterFailedRun) = 3
   \<and> githubData (twinData (handleGitHubConnect octocat (Rejected networkError)
                              (Fulfilled (okBody profileData)) afterFailedRun))
       = Some profileData
   \<and> resumeAnalysis (twinData (handleGitHubConnect octocat (Rejected networkError)
                                  (Fulfilled (okBody profileData)) afterFailedRun))
       = Some resumeData
   \<and> resumeAnalysis (twinData (handleGitHubConnect octocat (Rejected networkError)
                                  (Fulfilled (okBody profileData)) afterFailedRun))
       \<noteq> None"
proof -
  have r: "resume (twinData afterFailedRun) = Some resumePdf"
    by (simp add: afterFailedRun_eq emptyTwinData_def)
  have s: "success (okBody profileData)"
    by (simp add: okBody_def)
  have d: "data (okBody profileData) = Some profileData"
    by (simp add: okBody_def)
  have a: "resumeAnalysis (twinData afterFailedRun) = Some resumeData"
    and st: "step afterFailedRun = 2" and p: "\<not> isProcessing afterFailedRun"
    by (simp_all add: afterFailedRun_eq emptyTwinData_def)
  have f: "stageFailed (Rejected networkError)"
    "\<not> stageFailed (Fulfilled (okBody profileData))"
    by (simp_all add: stageFailed_def okBody_def)
  have run: "handleGitHubConnect octocat (Rejected networkError) (Fulfilled (okBody profileData))
               afterFailedRun
             = handleGitHubConnect_afterAnalyze (Fulfilled (okBody profileData)) octocat
                 (fst (handleGitHubConnect_afterUpload (Rejected networkError) octocat
                        (fst (handleGitHubConnect_start octocat afterFailedRun))))"
    by (rule run_resume[OF r])
  have fin: "step (handleGitHubConnect octocat (Rejected networkError)
                     (Fulfilled (okBody profileData)) afterFailedRun) = 3"
    "githubData (twinData (handleGitHubConnect octocat (Rejected networkError)
                              (Fulfilled (okBody profileData)) afterFailedRun))
       = Some profileData"
    "resumeAnalysis (twinData (handleGitHubConnect octocat (Rejected networkError)
                                  (Fulfilled (okBody profileData)) afterFailedRun))
       = Some resumeData"
    unfolding run
    by (simp_all add: start_resume[OF r] afterUpload_eq afterAnalyze_ok[OF s] a d)
  show ?thesis using r st p f fin by simp
qed

subsection \<open>Failure of the analysis\<close>

text \<open>
  Claim C5. When \<open>analyzeGitHub\<close> fails (its promise is rejected, or fulfilled with
  \<open>success: false\<close>), the run ends in the outer \<open>catch\<close>: an alert is the last thing that
  happens, \<open>step\<close> is still 2, \<open>isProcessing\<close> is false again, and the stored resume file
  and \<open>githubData\<close> are as before the run.
\<close>

theorem stageB_failure:
  assumes "step st = 2" and "stageFailed outB"
  shows "step (handleGitHubConnect u outA outB st) = 2
       \<and> \<not> isProcessing (handleGitHubConnect u outA outB st)
       \<and> resume (twinData (handleGitHubConnect u outA outB st)) = resume (twinData st)
       \<and> githubData (twinData (handleGitHubConnect u outA outB st)) = githubData (twinData st)
       \<and> isAlert (last (trace (handleGitHubConnect u outA outB st)))"
proof (cases "resume (twinData st)")
  case None
  obtain m where "handleGitHubConnect u outA outB st =
      (fst (handleGitHubConnect_start u st))\<lparr>isProcessing := False,
         trace := trace (fst (handleGitHubConnect_start u st))
                    @ [Settled AnalyzeGitHub outB, Alert m]\<rparr>"
    using afterAnalyze_failed[OF assms(2)] run_no_resume[OF None] by metis
  then show ?thesis using assms(1) None by (simp add: start_no_resume)
next
  case (Some f)
  let ?st2 = "fst (handleGitHubConnect_afterUpload outA u (fst (handleGitHubConnect_start u st)))"
  obtain m where "handleGitHubConnect u outA outB st =
      ?st2\<lparr>isProcessing := False, trace := trace ?st2 @ [Settled AnalyzeGitHub outB, Alert m]\<rparr>"
    using afterAnalyze_failed[OF assms(2)] run_resume[OF Some] by metis
  then show ?thesis using assms(1) Some
    by (cases outA) (simp_all add: start_resume afterUpload_eq)
qed

theorem stageB_failure_witness:
  "step atGitHubStep = 2 \<and> stageFailed (Fulfilled (failBody profileData []))
   \<and> stageFailed (Rejected networkError)
   \<and> step (handleGitHubConnect octocat (Fulfilled (okBody resumeData))
             (Fulfilled (failBody profileData [])) atGitHubStep) = 2
   \<and> \<not> isProcessing (handleGitHubConnect octocat (Fulfilled (okBody resumeData))
                        (Rejected networkError) atGitHubStep)
   \<and> resume (twinData (handleGitHubConnect octocat (Fulfilled (okBody resumeData))
                          (Rejected networkError) atGitHubStep)) = Some resumePdf
   \<and> trace (handleGitHubConnect octocat (Fulfilled (okBody resumeData))
              (Fulfilled (failBody profileData [])) atGitHubStep)
       = [Invoked UploadResume (uploadResume resumePdf octocat),
          Settled UploadResume (Fulfilled (okBody resumeData)),
          Invoked AnalyzeGitHub (analyzeGitHub octocat),
          Settled AnalyzeGitHub (Fulfilled (failBody profileData [])),
          Alert (js ''GitHub analysis failed: GitHub analysis failed'')]"
proof -
  have s: "step atGitHubStep = 2" and r: "resume (twinData atGitHubStep) = Some resumePdf"
    by (rule atGitHubStep_fields)+
  have f1: "stageFailed (Fulfilled (failBody profileData []))"
    and f2: "stageFailed (Rejected networkError)"
    by (simp_all add: stageFailed_def failBody_def)
  have t: "trace (handleGitHubConnect octocat (Fulfilled (okBody resumeData))
              (Fulfilled (failBody profileData [])) atGitHubStep)
       = [Invoked UploadResume (uploadResume resumePdf octocat),
          Settled UploadResume (Fulfilled (okBody resumeData)),
          Invoked AnalyzeGitHub (analyzeGitHub octocat),
          Settled AnalyzeGitHub (Fulfilled (failBody profileData [])),
          Alert (js ''GitHub analysis failed: GitHub analysis failed'')]"
    by (simp add: run_resume[OF r] start_resume[OF r] afterUpload_eq atGitHubStep_fields
        handleGitHubConnect_afterAnalyze_def catchBlock_def settled_def failBody_def Let_def
        js_def)
  show ?thesis
    using stageB_failure[OF s f1, of octocat "Fulfilled (okBody resumeData)"]
          stageB_failure[OF s f2, of octocat "Fulfilled (okBody resumeData)"] s f1 f2 t r
    by simp
qed

text \<open>
  Claim C9. A failed run is not rolled back. The third segment, when the analysis has
  failed, changes nothing in \<open>twinData\<close> and \<open>step\<close>; it sets \<open>isProcessing\<close> to false and
  shows the alert. So after the run \<open>githubUsername\<close> is the handle stored by the first
  segment, and when the upload was fulfilled before the analysis failed,
  \<open>resumeAnalysis\<close> holds the data of the upload.
\<close>

theorem failed_run_keeps_state:
  assumes "stageFailed outB"
  shows "twinData (handleGitHubConnect_afterAnalyze outB u st2) = twinData st2
       \<and> step (handleGitHubConnect_afterAnalyze outB u st2) = step st2
       \<and> \<not> isProcessing (handleGitHubConnect_afterAnalyze outB u st2)
       \<and> githubUsername (twinData (handleGitHubConnect u outA outB st)) = Some u
       \<and> (resume (twinData st) \<noteq> None \<longrightarrow>
            resumeAnalysis (twinData (handleGitHubConnect u (Fulfilled rA) outB st)) = data rA)"
proof -
  have seg: "\<And>s. twinData (handleGitHubConnect_afterAnalyze outB u s) = twinData s
              \<and> step (handleGitHubConnect_afterAnalyze outB u s) = step s
              \<and> \<not> isProcessing (handleGitHubConnect_afterAnalyze outB u s)"
  proof -
    fix s
    obtain m where "handleGitHubConnect_afterAnalyze outB u s =
        s\<lparr>isProcessing := False, trace := trace s @ [Settled AnalyzeGitHub outB, Alert m]\<rparr>"
      using afterAnalyze_failed[OF assms] by blast
    thus "twinData (handleGitHubConnect_afterAnalyze outB u s) = twinData s
              \<and> step (handleGitHubConnect_afterAnalyze outB u s) = step s
              \<and> \<not> isProcessing (handleGitHubConnect_afterAnalyze outB u s)"
      by simp
  qed
  have name: "githubUsername (twinData (handleGitHubConnect u outA outB st)) = Some u"
  proof (cases "resume (twinData st)")
    case None
    then show ?thesis by (simp add: run_no_resume seg start_no_resume)
  next
    case (Some f)
    then show ?thesis
      by (cases outA) (simp_all add: run_resume seg start_resume afterUpload_eq)
  qed
  have res: "resume (twinData st) \<noteq> None \<longrightarrow>
            resumeAnalysis (twinData (handleGitHubConnect u (Fulfilled rA) outB st)) = data rA"
  proof
    assume "resume (twinData st) \<noteq> None"
    then obtain f where f: "resume (twinData st) = Some f" by blast
    show "resumeAnalysis (twinData (handleGitHubConnect u (Fulfilled rA) outB st)) = data rA"
      by (simp add: run_resume[OF f] seg start_resume[OF f] afterUpload_eq)
  qed
  show ?thesis using seg[of st2] name res by blast
qed

theorem failed_run_keeps_state_witness:
  "stageFailed (Rejected networkError) \<and> resume (twinData atGitHubStep) \<noteq> None
   \<and> githubUsername (twinData (handleGitHubConnect octocat (Fulfilled (okBody resumeData))
                                  (Rejected networkError) atGitHubStep)) = Some octocat
   \<and> resumeAnalysis (twinData (handleGitHubConnect octocat (Fulfilled (okBody resumeData))
                                  (Rejected networkError) atGitHubStep)) = Some resumeData"
proof -
  have f: "stageFailed (Rejected networkError)"
    by (simp add: stageFailed_def)
  have r: "resume (twinData atGitHubStep) \<noteq> None"
    by (simp add: atGitHubStep_fields)
  show ?thesis
    using failed_run_keeps_state[OF f, of octocat atGitHubStep "Fulfilled (okBody resumeData)"
            atGitHubStep "okBody resumeData"] f r
    by (simp add: okBody_def)
qed

subsection \<open>A body with \<open>success: false\<close>\<close>

text \<open>
  Claim C2, at the upload. The second segment does not read \<open>success\<close>. When
  \<open>uploadResume\<close> is fulfilled with \<open>success: false\<close> and some data, and the analysis
  succeeds, the data is stored in \<open>resumeAnalysis\<close> as for a successful upload, and the
  run ends at step 3 without an alert. (At the analysis a body with \<open>success: false\<close> is a
  failure: the third segment throws, and the outer \<open>catch\<close> runs.)
\<close>

theorem upload_success_false_is_stored:
  "resumeAnalysis (twinData (handleGitHubConnect octocat
       (Fulfilled (failBody resumeData (js ''could not parse'')))
       (Fulfilled (okBody profileData)) atGitHubStep)) = Some resumeData
   \<and> step (handleGitHubConnect octocat
       (Fulfilled (failBody resumeData (js ''could not parse'')))
       (Fulfilled (okBody profileData)) atGitHubStep) = 3
   \<and> \<not> list_ex isAlert (trace (handleGitHubConnect octocat
       (Fulfilled (failBody resumeData (js ''could not parse'')))
       (Fulfilled (okBody profileData)) atGitHubStep))"
proof -
  have r: "resume (twinData atGitHubStep) = Some resumePdf"
    by (rule atGitHubStep_fields)
  have s: "success (okBody profileData)"
    by (simp add: okBody_def)
  show ?thesis
    by (simp add: run_resume[OF r] start_resume[OF r] afterUpload_eq afterAnalyze_ok[OF s]
        atGitHubStep_fields failBody_def)
qed

subsection \<open>The request of \<open>uploadResume\<close>\<close>

text \<open>
  Claim C3, at the request. \<open>handleGitHubConnect\<close> calls \<open>uploadResume\<close> with the stored
  file and the submitted username, and the request that \<open>uploadResume\<close> sends to
  \<open>/resume/analyze\<close> has the single form field \<open>resume\<close>: there is no field \<open>username\<close>.
\<close>

theorem uploadResume_sends_no_username:
  "trace (fst (handleGitHubConnect_start octocat atGitHubStep))
     = [Invoked UploadResume (uploadResume resumePdf octocat)]
   \<and> uploadResume resumePdf octocat
       = \<lparr>httpMethod = js ''POST'', url = js ''/resume/analyze'',
          contentType = js ''multipart/form-data'',
          body = Multipart [(js ''resume'', FilePart resumePdf)]\<rparr>"
proof -
  have r: "resume (twinData atGitHubStep) = Some resumePdf"
    by (rule atGitHubStep_fields)
  show ?thesis
    by (simp add: start_resume[OF r] atGitHubStep_fields uploadResume_def)
qed

section \<open>Properties of the submission\<close>

text \<open>
  Claim C8. While \<open>isProcessing\<close> is true the submit button and the input are disabled,
  and a submission attempt changes nothing and starts no run. \<open>isProcessing\<close> is true
  from the first segment of a run on, and the second segment leaves it as it is, so this
  holds as long as the run waits for one of its two calls.
\<close>

theorem submit_refused_while_processing:
  "(isProcessing st \<longrightarrow>
      connectButtonDisabled (isProcessing st) c \<and> inputDisabled (isProcessing st)
      \<and> submitAttempt c st = (c, st, None))
   \<and> isProcessing (fst (handleGitHubConnect_start u st))
   \<and> isProcessing (fst (handleGitHubConnect_afterUpload out u st)) = isProcessing st"
proof -
  have "isProcessing (fst (handleGitHubConnect_start u st))"
    by (cases "resume (twinData st)") (simp_all add: start_resume start_no_resume)
  thus ?thesis
    by (simp add: submitAttempt_def connectButtonDisabled_def inputDisabled_def afterUpload_eq)
qed

lemma octocat_accepted: "validateUsername octocat = (js '''', True)"
proof -
  have "specHandle octocat"
    unfolding octocat_def by (rule octocat_specHandle)
  thus ?thesis
    by (simp add: validateUsername_def usernameRegex_specHandle trim_empty
        specHandle_not_blank)
qed

lemma octocat_not_blank: "trim octocat \<noteq> []"
  by (simp add: octocat_def js_def trim_empty isWhiteSpace_def)

theorem submit_refused_while_processing_witness:
  "submitAttempt \<lparr>username = octocat, error = []\<rparr> atGitHubStep
     = (\<lparr>username = octocat, error = []\<rparr>,
        fst (handleGitHubConnect_start octocat atGitHubStep),
        Some (AwaitUploadResume octocat))
   \<and> isProcessing (fst (handleGitHubConnect_start octocat atGitHubStep))
   \<and> submitAttempt \<lparr>username = octocat, error = []\<rparr>
        (fst (handleGitHubConnect_start octocat atGitHubStep))
     = (\<lparr>username = octocat, error = []\<rparr>,
        fst (handleGitHubConnect_start octocat atGitHubStep), None)"
proof -
  have r: "resume (twinData atGitHubStep) = Some resumePdf"
    by (rule atGitHubStep_fields)
  have first: "submitAttempt \<lparr>username = octocat, error = []\<rparr> atGitHubStep
     = (\<lparr>username = octocat, error = []\<rparr>,
        fst (handleGitHubConnect_start octocat atGitHubStep),
        Some (AwaitUploadResume octocat))"
    by (simp add: submitAttempt_def connectButtonDisabled_def handleSubmit_def octocat_accepted
        octocat_not_blank atGitHubStep_fields start_resume[OF r] js_def)
  have p: "isProcessing (fst (handleGitHubConnect_start octocat atGitHubStep))"
    using submit_refused_while_processing[of atGitHubStep] by blast
  show ?thesis
    using submit_refused_while_processing
            [of "fst (handleGitHubConnect_start octocat atGitHubStep)"
                "\<lparr>username = octocat, error = []\<rparr>"] first p
    by blast
qed

section \<open>Properties of the export\<close>

text \<open>
  Claim C10. The exported JSON object has the members \<open>resume\<close> (the name of the file),
  \<open>github\<close> (the username) and \<open>timestamp\<close> (the time of the export), in this order.
  \<open>JSON.stringify\<close> leaves out a property whose value is \<open>undefined\<close>: without a resume
  file there is no key \<open>resume\<close>, and without a username no key \<open>github\<close>.
\<close>

theorem handleExport_members:
  "members (handleExport now td) =
     (case resume td of None \<Rightarrow> [] | Some f \<Rightarrow> [(js ''resume'', name_f f)]) @
     (case githubUsername td of None \<Rightarrow> [] | Some u \<Rightarrow> [(js ''github'', u)]) @
     [(js ''timestamp'', now)]
   \<and> (resume td = None \<longrightarrow> js ''resume'' \<notin> fst ` set (members (handleExport now td)))
   \<and> (githubUsername td = None \<longrightarrow> js ''github'' \<notin> fst ` set (members (handleExport now td)))
   \<and> fst ` set (members (handleExport now td))
        \<subseteq> {js ''resume'', js ''github'', js ''timestamp''}"
proof -
  have m: "members (handleExport now td) =
     (case resume td of None \<Rightarrow> [] | Some f \<Rightarrow> [(js ''resume'', name_f f)]) @
     (case githubUsername td of None \<Rightarrow> [] | Some u \<Rightarrow> [(js ''github'', u)]) @
     [(js ''timestamp'', now)]"
    by (simp add: handleExport_def exportData_def split: option.splits)
  have d: "js ''resume'' \<noteq> js ''github''" "js ''resume'' \<noteq> js ''timestamp''"
    "js ''github'' \<noteq> js ''timestamp''"
    by (simp_all add: js_def)
  show ?thesis
    unfolding m using d by (auto split: option.splits)
qed

theorem handleExport_members_witness:
  "resume (emptyTwinData\<lparr>githubUsername := Some octocat\<rparr>) = None
   \<and> members (handleExport (js ''2025-01-15T14:30:22.000Z'')
                (emptyTwinData\<lparr>githubUsername := Some octocat\<rparr>))
       = [(js ''github'', octocat), (js ''timestamp'', js ''2025-01-15T14:30:22.000Z'')]
   \<and> js ''resume'' \<notin> fst ` set (members (handleExport (js ''2025-01-15T14:30:22.000Z'')
                                    (emptyTwinData\<lparr>githubUsername := Some octocat\<rparr>)))
   \<and> githubUsername emptyTwinData = None
   \<and> members (handleExport (js ''2025-01-15T14:30:22.000Z'') emptyTwinData)
       = [(js ''timestamp'', js ''2025-01-15T14:30:22.000Z'')]
   \<and> members (handleExport (js ''2025-01-15T14:30:22.000Z'')
                (emptyTwinData\<lparr>resume := Some resumePdf, githubUsername := Some octocat\<rparr>))
       = [(js ''resume'', js ''resume.pdf''), (js ''github'', octocat),
          (js ''timestamp'', js ''2025-01-15T14:30:22.000Z'')]"
  using handleExport_members
          [of "js ''2025-01-15T14:30:22.000Z''" "emptyTwinData\<lparr>githubUsername := Some octocat\<rparr>"]
        handleExport_members [of "js ''2025-01-15T14:30:22.000Z''" emptyTwinData]
        handleExport_members
          [of "js ''2025-01-15T14:30:22.000Z''"
              "emptyTwinData\<lparr>resume := Some resumePdf, githubUsername := Some octocat\<rparr>"]
  by (simp add: emptyTwinData_def resumePdf_def js_def)

end
